theory Spec2Isabelle
  imports Complex_Main "HOL-Library.Sublist" "HOL-Library.Word"
begin

section \<open>Python values used by \<open>core/text_to_speech.py\<close>\<close>

text \<open>
  A Python \<open>str\<close> is a sequence of Unicode code points and \<open>len\<close> counts code points,
  so a string is a list of code points. \<open>py\<close> reads an ASCII literal of the source.
  A \<open>bytes\<close> value is a list of 8-bit words. Python floats are idealised as exact
  rationals: the program only passes them on, divides once and multiplies once.
\<close>

type_synonym codepoint = nat
type_synonym pystr = "codepoint list"
type_synonym byte = "8 word"
type_synonym bytes = "byte list"
type_synonym pyfloat = rat

definition py :: "string \<Rightarrow> pystr" where
  "py s = map of_char s"

datatype exn = ZeroDivisionError | TypeError | KeyError | Raised pystr

text \<open>
  \<open>str.isspace\<close> for one code point, as CPython's \<open>_PyUnicode_IsWhitespace\<close> decides it:
  U+0009..U+000D, U+001C..U+0020, U+0085, U+00A0, U+1680, U+2000..U+200A, U+2028,
  U+2029, U+202F, U+205F, U+3000. \<open>strip()\<close> and \<open>split()\<close> without arguments use it.
\<close>

definition isspace :: "codepoint \<Rightarrow> bool" where
  "isspace c \<longleftrightarrow>
     (9 \<le> c \<and> c \<le> 13) \<or> (28 \<le> c \<and> c \<le> 32) \<or> c = 133 \<or> c = 160 \<or> c = 5760 \<or>
     (8192 \<le> c \<and> c \<le> 8202) \<or> c = 8232 \<or> c = 8233 \<or> c = 8239 \<or> c = 8287 \<or> c = 12288"

definition str_strip :: "pystr \<Rightarrow> pystr" where
  "str_strip s = rev (dropWhile isspace (rev (dropWhile isspace s)))"



text \<open>\<open>str(n)\<close> for an integer: decimal digits, a minus sign for a negative one.\<close>

fun str_nat :: "nat \<Rightarrow> pystr" where
  "str_nat n = (if n < 10 then [48 + n] else str_nat (n div 10) @ [48 + n mod 10])"

declare str_nat.simps [simp del]

definition str_int :: "int \<Rightarrow> pystr" where
  "str_int i = (if i < 0 then 45 # str_nat (nat (- i)) else str_nat (nat i))"

text \<open>A dict literal is an association list; \<open>d[k]\<close> raises \<open>KeyError\<close>, \<open>d.get(k, v)\<close> does not.\<close>

definition dict_index :: "('k \<times> 'v) list \<Rightarrow> 'k \<Rightarrow> exn + 'v" where
  "dict_index d k = (case map_of d k of None \<Rightarrow> Inl KeyError | Some v \<Rightarrow> Inr v)"

definition dict_get :: "('k \<times> 'v) list \<Rightarrow> 'k \<Rightarrow> 'v \<Rightarrow> 'v" where
  "dict_get d k dflt = (case map_of d k of None \<Rightarrow> dflt | Some v \<Rightarrow> v)"


section \<open>The pure helpers\<close>

subsection \<open>\<open>validate_text\<close> (lines 297-317)\<close>

definition validate_text :: "pystr \<Rightarrow> int \<Rightarrow> bool \<times> pystr" where
  "validate_text text max_length =
     (if text = [] \<or> str_strip text = [] then (False, py ''Text is empty'')
      else if int (length text) > max_length then
        (False, py ''Text too long ('' @ str_nat (length text) @ py '' chars). Maximum: ''
                @ str_int max_length)
      else (True, py ''Text valid''))"

text \<open>The claim's words: a text is blank when it is empty or holds whitespace only.\<close>

definition blank :: "pystr \<Rightarrow> bool" where
  "blank text \<longleftrightarrow> list_all isspace text"

subsection \<open>\<open>estimate_audio_duration\<close> (lines 319-334)\<close>





subsection \<open>\<open>get_voice_settings_preset\<close> (lines 336-352)\<close>

record settings =
  stability :: pyfloat
  similarity :: pyfloat

definition presets :: "(pystr \<times> settings) list" where
  "presets =
     [(py ''stable'', \<lparr>stability = 75 / 100, similarity = 75 / 100\<rparr>),
      (py ''balanced'', \<lparr>stability = 50 / 100, similarity = 75 / 100\<rparr>),
      (py ''expressive'', \<lparr>stability = 30 / 100, similarity = 80 / 100\<rparr>)]"

definition get_voice_settings_preset :: "pystr \<Rightarrow> exn + settings" where
  "get_voice_settings_preset preset =
     (case dict_index presets (py ''balanced'') of
        Inl e \<Rightarrow> Inl e
      | Inr dflt \<Rightarrow> Inr (dict_get presets preset dflt))"


section \<open>The world around the class\<close>

text \<open>
  The provider client, the \<open>requests\<close> library, the clock and the file system are not
  code of the class. Each is an oracle of the environment that answers from the history
  of effects so far, so that two calls with the same arguments may be answered
  differently. Every effect is appended to the trace of the world.
\<close>

datatype ending = Exhausted | Broken exn

text \<open>
  What \<open>client.text_to_speech.convert\<close> may return: an object with a \<open>content\<close>
  attribute (whose value may be \<open>None\<close>), a \<open>bytes\<close> or \<open>bytearray\<close>, an iterable of
  chunks whose iteration ends or raises, or something that is none of these.
\<close>

datatype response =
    WithContent "bytes option"
  | RawBytes bytes
  | Chunked "bytes list" ending
  | Opaque

record request =
  url :: pystr
  headers :: "(pystr \<times> pystr) list"
  body_text :: pystr
  body_model :: pystr
  body_stability :: pyfloat
  body_similarity_boost :: pyfloat
  streamed :: bool

record http_response =
  status_code :: int
  content :: bytes
  resp_text :: pystr
  iter_content :: "nat \<Rightarrow> bytes list \<times> ending"

text \<open>The lines the class prints; each constructor stands for one \<open>print\<close> of the source.\<close>

datatype message =
    SynthesizingSpeech
  | TextLine pystr
  | VoiceIdLine pystr
  | NoAudioReceived
  | AudioGenerated
  | SavedTo pystr
  | SynthesisFailed exn
  | StreamingFailedHTTP int
  | StreamingFailed exn
  | RestTtsFailed int pystr
  | RestGenerateError exn
  | BatchProgress nat nat

datatype event =
    Printed message
  | CalledConvert pystr pystr pystr pyfloat pyfloat
  | CalledStream pystr pystr pystr pyfloat pyfloat
  | Posted request
  | ReadClock
  | Opened pystr
  | Wrote pystr bytes

record world =
  trace :: "event list"
  files :: "pystr \<rightharpoonup> bytes"

record environment =
  api_key :: pystr
  has_text_to_speech :: bool
  has_convert :: bool
  has_stream :: bool
  voice_settings_error :: "pyfloat \<Rightarrow> pyfloat \<Rightarrow> exn option"
  sdk_convert :: "event list \<Rightarrow> pystr \<Rightarrow> pystr \<Rightarrow> pystr \<Rightarrow> pyfloat \<Rightarrow> pyfloat \<Rightarrow> exn + response"
  sdk_stream ::
    "event list \<Rightarrow> pystr \<Rightarrow> pystr \<Rightarrow> pystr \<Rightarrow> pyfloat \<Rightarrow> pyfloat \<Rightarrow> exn + bytes list \<times> ending"
  requests_post :: "event list \<Rightarrow> request \<Rightarrow> exn + http_response"
  strftime_now :: "event list \<Rightarrow> pystr"
  open_error :: "event list \<Rightarrow> pystr \<Rightarrow> exn option"
  write_error :: "event list \<Rightarrow> pystr \<Rightarrow> bytes \<Rightarrow> exn option"

definition emit :: "event \<Rightarrow> world \<Rightarrow> world" where
  "emit e w = w\<lparr>trace := trace w @ [e]\<rparr>"

definition new_events :: "world \<Rightarrow> world \<Rightarrow> event list" where
  "new_events w w' = drop (length (trace w)) (trace w')"


definition is_posted :: "event \<Rightarrow> bool" where
  "is_posted e = (case e of Posted _ \<Rightarrow> True | _ \<Rightarrow> False)"


definition output_dir :: pystr where
  "output_dir = py ''assets/outputs''"

definition monolingual :: pystr where
  "monolingual = py ''eleven_monolingual_v1''"


section \<open>The synthesis facade\<close>

subsection \<open>\<open>_rest_generate_bytes\<close> (lines 219-246)\<close>

definition rest_request ::
  "environment \<Rightarrow> pystr \<Rightarrow> pystr \<Rightarrow> pyfloat \<Rightarrow> pyfloat \<Rightarrow> pystr \<Rightarrow> bool \<Rightarrow> request" where
  "rest_request env txt voice_id stab sim model str =
     \<lparr>url = py ''https://api.elevenlabs.io/v1/text-to-speech/'' @ voice_id,
      headers = [(py ''Accept'', py ''audio/mpeg''),
                 (py ''Content-Type'', py ''application/json''),
                 (py ''xi-api-key'', api_key env)],
      body_text = txt, body_model = model,
      body_stability = stab, body_similarity_boost = sim,
      streamed = str\<rparr>"

definition rest_generate_bytes ::
  "environment \<Rightarrow> world \<Rightarrow> pystr \<Rightarrow> pystr \<Rightarrow> pyfloat \<Rightarrow> pyfloat \<Rightarrow> pystr \<Rightarrow> bytes option \<times> world"
  where
  "rest_generate_bytes env w txt voice_id stab sim model =
     (let req = rest_request env txt voice_id stab sim model False;
          w1 = emit (Posted req) w
      in case requests_post env (trace w1) req of
           Inl e \<Rightarrow> (None, emit (Printed (RestGenerateError e)) w1)
         | Inr resp \<Rightarrow>
             if status_code resp = 200 then (Some (content resp), w1)
             else (None, emit (Printed (RestTtsFailed (status_code resp) (resp_text resp))) w1))"

subsection \<open>\<open>synthesize\<close> (lines 32-101)\<close>

text \<open>Lines 63-73: the bytes of the structured call's response, or \<open>None\<close>.\<close>

definition extract_bytes :: "response \<Rightarrow> bytes option" where
  "extract_bytes resp =
     (case resp of
        WithContent c \<Rightarrow> c
      | RawBytes b \<Rightarrow> Some b
      | Chunked cs Exhausted \<Rightarrow> Some (concat cs)
      | Chunked cs (Broken e) \<Rightarrow> None
      | Opaque \<Rightarrow> None)"

text \<open>
  Lines 51-79. The arguments of \<open>convert\<close> are evaluated before the call, so a
  \<open>VoiceSettings\<close> constructor that raises is caught by the same handler as a call
  that raises.
\<close>

definition acquire_audio ::
  "environment \<Rightarrow> world \<Rightarrow> pystr \<Rightarrow> pystr \<Rightarrow> pyfloat \<Rightarrow> pyfloat \<Rightarrow> bytes option \<times> world" where
  "acquire_audio env w txt voice_id stab sim =
     (if has_text_to_speech env \<and> has_convert env then
        (case voice_settings_error env stab sim of
           Some e \<Rightarrow> rest_generate_bytes env w txt voice_id stab sim monolingual
         | None \<Rightarrow>
             (let w1 = emit (CalledConvert voice_id txt monolingual stab sim) w
              in case sdk_convert env (trace w1) voice_id txt monolingual stab sim of
                   Inl e \<Rightarrow> rest_generate_bytes env w1 txt voice_id stab sim monolingual
                 | Inr resp \<Rightarrow> (extract_bytes resp, w1)))
      else rest_generate_bytes env w txt voice_id stab sim monolingual)"

text \<open>
  Lines 85-97. \<open>open(path, 'wb')\<close> creates or empties the file before anything is
  written; an error of \<open>open\<close> or of \<open>write\<close> reaches the handler of lines 99-101.
\<close>

definition save_audio ::
  "environment \<Rightarrow> world \<Rightarrow> bytes \<Rightarrow> pystr option \<Rightarrow> pystr option \<times> world" where
  "save_audio env w audio_bytes output_path =
     (let (path, w1) =
            (case output_path of
               None \<Rightarrow>
                 (let wc = emit ReadClock w;
                      filename = py ''output_'' @ strftime_now env (trace wc) @ py ''.mp3''
                  in (output_dir @ py ''/'' @ filename, wc))
             | Some p \<Rightarrow> (p, w))
      in case open_error env (trace w1) path of
           Some e \<Rightarrow> (None, emit (Printed (SynthesisFailed e)) w1)
         | None \<Rightarrow>
             (let w2 = emit (Opened path) (w1\<lparr>files := (files w1)(path \<mapsto> [])\<rparr>)
              in case write_error env (trace w2) path audio_bytes of
                   Some e \<Rightarrow> (None, emit (Printed (SynthesisFailed e)) w2)
                 | None \<Rightarrow>
                     (Some path,
                      emit (Printed (SavedTo path))
                        (emit (Printed AudioGenerated)
                           (emit (Wrote path audio_bytes)
                              (w2\<lparr>files := (files w2)(path \<mapsto> audio_bytes)\<rparr>))))))"

text \<open>Lines 47-49, the three lines printed before anything else happens.\<close>

definition announce :: "world \<Rightarrow> pystr \<Rightarrow> pystr \<Rightarrow> world" where
  "announce w txt voice_id =
     emit (Printed (VoiceIdLine voice_id))
       (emit (Printed (TextLine txt)) (emit (Printed SynthesizingSpeech) w))"

definition synthesize ::
  "environment \<Rightarrow> world \<Rightarrow> pystr \<Rightarrow> pystr \<Rightarrow> pyfloat \<Rightarrow> pyfloat \<Rightarrow> pystr option \<Rightarrow>
     pystr option \<times> world" where
  "synthesize env w txt voice_id stab sim output_path =
     (let w0 = announce w txt voice_id;
          (audio_bytes, w1) = acquire_audio env w0 txt voice_id stab sim
      in case audio_bytes of
           None \<Rightarrow> (None, emit (Printed NoAudioReceived) w1)
         | Some b \<Rightarrow> save_audio env w1 b output_path)"

subsection \<open>\<open>batch_synthesize\<close> (lines 248-281)\<close>

text \<open>\<open>if result:\<close> on a value that is \<open>None\<close> or a \<open>str\<close>.\<close>

definition truthy :: "pystr option \<Rightarrow> bool" where
  "truthy r = (case r of None \<Rightarrow> False | Some p \<Rightarrow> p \<noteq> [])"

definition batch_path :: "nat \<Rightarrow> pystr \<Rightarrow> pystr" where
  "batch_path i timestamp =
     output_dir @ py ''/'' @ (py ''batch_'' @ str_nat (i + 1) @ py ''_'' @ timestamp @ py ''.mp3'')"

fun batch_loop ::
  "environment \<Rightarrow> nat \<Rightarrow> nat \<Rightarrow> pystr list \<Rightarrow> pystr \<Rightarrow> pyfloat \<Rightarrow> pyfloat \<Rightarrow>
     pystr list \<Rightarrow> world \<Rightarrow> pystr list \<times> world" where
  "batch_loop env n i [] voice_id stab sim output_paths w = (output_paths, w)"
| "batch_loop env n i (txt # rest) voice_id stab sim output_paths w =
     (let w1 = emit (Printed (BatchProgress (i + 1) n)) w;
          w2 = emit ReadClock w1;
          output_path = batch_path i (strftime_now env (trace w2));
          (result, w3) = synthesize env w2 txt voice_id stab sim (Some output_path)
      in batch_loop env n (i + 1) rest voice_id stab sim
           (if truthy result then output_paths @ [the result] else output_paths) w3)"

definition batch_synthesize ::
  "environment \<Rightarrow> world \<Rightarrow> pystr list \<Rightarrow> pystr \<Rightarrow> pyfloat \<Rightarrow> pyfloat \<Rightarrow> pystr list \<times> world" where
  "batch_synthesize env w texts voice_id stab sim =
     batch_loop env (length texts) 0 texts voice_id stab sim [] w"

text \<open>
  The claim's words: one call of \<open>synthesize\<close> per text, one after the other in list
  order; the list of what each call returned, failures included.
\<close>

fun synthesize_each ::
  "environment \<Rightarrow> nat \<Rightarrow> nat \<Rightarrow> pystr list \<Rightarrow> pystr \<Rightarrow> pyfloat \<Rightarrow> pyfloat \<Rightarrow> world \<Rightarrow>
     pystr option list" where
  "synthesize_each env n i [] voice_id stab sim w = []"
| "synthesize_each env n i (txt # rest) voice_id stab sim w =
     (let w2 = emit ReadClock (emit (Printed (BatchProgress (i + 1) n)) w);
          r = synthesize env w2 txt voice_id stab sim
                (Some (batch_path i (strftime_now env (trace w2))))
      in fst r # synthesize_each env n (i + 1) rest voice_id stab sim (snd r))"

definition successes :: "pystr option list \<Rightarrow> pystr list" where
  "successes rs = map the (filter (\<lambda>r. r \<noteq> None) rs)"

definition synthesize_calls :: "event list \<Rightarrow> pystr list" where
  "synthesize_calls tr =
     concat (map (\<lambda>e. case e of Printed (TextLine t) \<Rightarrow> [t] | _ \<Rightarrow> []) tr)"

subsection \<open>\<open>synthesize_with_preset\<close> (lines 354-373)\<close>

definition synthesize_with_preset ::
  "environment \<Rightarrow> world \<Rightarrow> pystr \<Rightarrow> pystr \<Rightarrow> pystr \<Rightarrow> exn + pystr option \<times> world" where
  "synthesize_with_preset env w txt voice_id preset =
     (case get_voice_settings_preset preset of
        Inl e \<Rightarrow> Inl e
      | Inr s \<Rightarrow> Inr (synthesize env w txt voice_id (stability s) (similarity s) None))"


section \<open>The streaming variant\<close>

text \<open>
  \<open>synthesize_streaming\<close> is a generator. The model is its complete run, as a consumer
  that reads to the end sees it: the chunks yielded, in order, and the world after. Each
  chunk carries the path it came from; the mark is not part of what the consumer
  receives, \<open>map snd\<close> removes it.
\<close>

datatype origin = FromStructured | FromHttp

text \<open>Lines 137-158; \<open>if chunk:\<close> holds for a non-empty \<open>bytes\<close>.\<close>

definition rest_stream ::
  "environment \<Rightarrow> world \<Rightarrow> pystr \<Rightarrow> pystr \<Rightarrow> pyfloat \<Rightarrow> pyfloat \<Rightarrow> bytes list \<times> world" where
  "rest_stream env w txt voice_id stab sim =
     (let req = rest_request env txt voice_id stab sim monolingual True;
          w1 = emit (Posted req) w
      in case requests_post env (trace w1) req of
           Inl e \<Rightarrow> ([], emit (Printed (StreamingFailed e)) w1)
         | Inr resp \<Rightarrow>
             if status_code resp = 200 then
               (case iter_content resp 4096 of
                  (chunks, Exhausted) \<Rightarrow> (filter (\<lambda>chunk. chunk \<noteq> []) chunks, w1)
                | (chunks, Broken e) \<Rightarrow>
                    (filter (\<lambda>chunk. chunk \<noteq> []) chunks, emit (Printed (StreamingFailed e)) w1))
             else ([], emit (Printed (StreamingFailedHTTP (status_code resp))) w1))"

text \<open>
  Lines 118-135, the structured attempt: the chunks it yields, whether control goes on
  to line 137 (the attempt is not available, or raised at the call or while iterating)
  instead of returning at line 131, and the world after.
\<close>

definition structured_stream ::
  "environment \<Rightarrow> world \<Rightarrow> pystr \<Rightarrow> pystr \<Rightarrow> pyfloat \<Rightarrow> pyfloat \<Rightarrow> (bytes list \<times> bool) \<times> world"
  where
  "structured_stream env w txt voice_id stab sim =
     (if has_text_to_speech env \<and> has_stream env then
        (case voice_settings_error env stab sim of
           Some e \<Rightarrow> (([], True), w)
         | None \<Rightarrow>
             (let w1 = emit (CalledStream voice_id txt monolingual stab sim) w
              in case sdk_stream env (trace w1) voice_id txt monolingual stab sim of
                   Inl e \<Rightarrow> (([], True), w1)
                 | Inr (chunks, Exhausted) \<Rightarrow> ((chunks, False), w1)
                 | Inr (chunks, Broken e) \<Rightarrow> ((chunks, True), w1)))
      else (([], True), w))"

text \<open>Lines 116-162.\<close>

definition synthesize_streaming ::
  "environment \<Rightarrow> world \<Rightarrow> pystr \<Rightarrow> pystr \<Rightarrow> pyfloat \<Rightarrow> pyfloat \<Rightarrow> (origin \<times> bytes) list \<times> world"
  where
  "synthesize_streaming env w txt voice_id stab sim =
     (let ((chunks, falls_through), w1) = structured_stream env w txt voice_id stab sim
      in if falls_through then
           (let (http_chunks, w2) = rest_stream env w1 txt voice_id stab sim
            in (map (Pair FromStructured) chunks @ map (Pair FromHttp) http_chunks, w2))
         else (map (Pair FromStructured) chunks, w1))"


definition falls_through :: "(bytes list \<times> bool) \<times> world \<Rightarrow> bool" where
  "falls_through s = snd (fst s)"

definition yielded :: "(origin \<times> bytes) list \<times> world \<Rightarrow> bytes list" where
  "yielded r = map snd (fst r)"

definition yielded_by :: "origin \<Rightarrow> (origin \<times> bytes) list \<times> world \<Rightarrow> bytes list" where
  "yielded_by p r = map snd (filter (\<lambda>c. fst c = p) (fst r))"




section \<open>Example environments\<close>

text \<open>
  Concrete clients, transports and worlds at which the theorems below are evaluated.
\<close>

definition example_response :: http_response where
  "example_response =
     \<lparr>status_code = 200, content = [1, 2, 3], resp_text = [],
      iter_content = (\<lambda>n. ([[1], [], [2, 3]], Exhausted))\<rparr>"

definition example_env :: environment where
  "example_env =
     \<lparr>api_key = py ''key'', has_text_to_speech = True, has_convert = True, has_stream = True,
      voice_settings_error = (\<lambda>a b. None),
      sdk_convert = (\<lambda>h v t m a b. Inr (RawBytes [9, 9])),
      sdk_stream = (\<lambda>h v t m a b. Inr ([[7, 7]], Exhausted)),
      requests_post = (\<lambda>h r. Inr example_response),
      strftime_now = (\<lambda>h. py ''20240101_120000''),
      open_error = (\<lambda>h p. None),
      write_error = (\<lambda>h p b. None)\<rparr>"

definition empty_world :: world where
  "empty_world = \<lparr>trace = [], files = Map.empty\<rparr>"


definition picky_env :: environment where
  "picky_env =
     example_env\<lparr>has_text_to_speech := False,
       requests_post := (\<lambda>h r. if body_text r = py ''bad''
                                then Inr \<lparr>status_code = 500, content = [], resp_text = py ''error'',
                                          iter_content = (\<lambda>n. ([], Exhausted))\<rparr>
                                else Inr example_response)\<rparr>"

definition broken_iterator_env :: environment where
  "broken_iterator_env =
     example_env\<lparr>sdk_convert := (\<lambda>h v t m a b. Inr (Chunked [[1]] (Broken (Raised (py ''invalid voice'')))))\<rparr>"






definition sparse_env :: environment where
  "sparse_env =
     example_env\<lparr>has_text_to_speech := False,
       requests_post := (\<lambda>h r. Inr \<lparr>status_code = 200, content = [8, 9], resp_text = [],
                                     iter_content = (\<lambda>n. ([[], [8], [], [], [9]], Exhausted))\<rparr>)\<rparr>"


section \<open>Properties of the pure helpers\<close>

subsection \<open>\<open>validate_text\<close>\<close>


lemma strip_empty_iff: "(text = [] \<or> str_strip text = []) \<longleftrightarrow> blank text"
proof -
  have "dropWhile isspace text = [] \<longleftrightarrow> list_all isspace text"
    by (simp add: dropWhile_eq_Nil_conv list_all_iff)
  moreover have "str_strip text = [] \<longleftrightarrow> dropWhile isspace text = []"
  proof
    assume a: "str_strip text = []"
    show "dropWhile isspace text = []"
    proof (rule ccontr)
      assume n: "dropWhile isspace text \<noteq> []"
      then have "\<not> isspace (hd (dropWhile isspace text))" by (rule hd_dropWhile)
      moreover from a have "\<forall>x\<in>set (dropWhile isspace text). isspace x"
        unfolding str_strip_def rev_is_Nil_conv dropWhile_eq_Nil_conv set_rev .
      ultimately show False using n by (metis hd_in_set)
    qed
  next
    assume d: "dropWhile isspace text = []"
    show "str_strip text = []" unfolding str_strip_def d by simp
  qed
  moreover have "text = [] \<Longrightarrow> list_all isspace text" by simp
  ultimately show ?thesis unfolding blank_def by blast
qed

text \<open>
  Claim C8. \<open>validate_text\<close> answers by the first case that applies, in the order of the
  claim and of the source: a blank text (empty or whitespace only) is invalid and the
  reason contains "empty"; otherwise a text longer than \<open>max_length\<close> is invalid and the
  reason contains the decimal numerals of its length and of \<open>max_length\<close>; otherwise the
  text is valid. A text longer than \<open>max_length\<close> is invalid whether blank or not.
\<close>

theorem validate_text_cases:
  "(blank text \<longrightarrow>
      fst (validate_text text max_length) = False \<and>
      sublist (py ''empty'') (snd (validate_text text max_length))) \<and>
   (\<not> blank text \<and> int (length text) > max_length \<longrightarrow>
      fst (validate_text text max_length) = False \<and>
      sublist (str_nat (length text)) (snd (validate_text text max_length)) \<and>
      sublist (str_int max_length) (snd (validate_text text max_length))) \<and>
   (int (length text) > max_length \<longrightarrow> fst (validate_text text max_length) = False) \<and>
   (\<not> blank text \<and> \<not> int (length text) > max_length \<longrightarrow>
      fst (validate_text text max_length) = True)"
proof -
  have he: "sublist (py ''empty'') (py ''Text is empty'')"
  proof -
    have "py ''Text is empty'' = py ''Text is '' @ py ''empty'' @ []" by (simp add: py_def)
    then show ?thesis by (metis sublist_appendI)
  qed
  have hl: "sublist (str_nat n) (py ''Text too long ('' @ str_nat n @ py '' chars). Maximum: '' @ str_int m)" for n m
    by (rule sublist_appendI)
  have hr: "sublist (str_int m) (py ''Text too long ('' @ str_nat n @ py '' chars). Maximum: '' @ str_int m)" for n m
    by (metis append.assoc sublist_append_leftI)
  show ?thesis
    using strip_empty_iff [of "text"] he hl hr by (simp add: validate_text_def)
qed

text \<open>The three examples of the specification.\<close>

lemma validate_text_example_empty: "validate_text (py '''') 5000 = (False, py ''Text is empty'')"
  by (simp add: validate_text_def py_def)
lemma str_nat_example: "str_nat 5001 = py ''5001''" by (simp add: str_nat.simps py_def)
lemma validate_text_example_long: "validate_text (replicate 5001 120) 5000 = (False, py ''Text too long (5001 chars). Maximum: 5000'')"
  by (simp add: validate_text_def py_def str_strip_def isspace_def str_int_def str_nat.simps)
lemma validate_text_example_hello: "validate_text (py ''hello'') 5000 = (True, py ''Text valid'')"
  by (simp add: validate_text_def py_def str_strip_def isspace_def)

theorem validate_text_cases_witness:
  "blank (py ''  '') \<and> validate_text (py ''  '') 5 = (False, py ''Text is empty'') \<and>
   \<not> blank (py ''hello!'') \<and> int (length (py ''hello!'')) > 5 \<and>
   fst (validate_text (py ''hello!'') 5) = False \<and>
   sublist (py ''6'') (snd (validate_text (py ''hello!'') 5)) \<and>
   sublist (py ''5'') (snd (validate_text (py ''hello!'') 5)) \<and>
   \<not> blank (py ''hello'') \<and> \<not> int (length (py ''hello'')) > 5 \<and>
   fst (validate_text (py ''hello'') 5) = True"
proof -
  have b: "blank (py ''  '')" by (simp add: blank_def py_def isspace_def)
  have n1: "\<not> blank (py ''hello!'')" by (simp add: blank_def py_def isspace_def)
  have n2: "\<not> blank (py ''hello'')" by (simp add: blank_def py_def isspace_def)
  have l1: "int (length (py ''hello!'')) > 5" by (simp add: py_def)
  have l2: "\<not> int (length (py ''hello'')) > 5" by (simp add: py_def)
  have s6: "str_nat (length (py ''hello!'')) = py ''6''" by (simp add: py_def str_nat.simps)
  have s5: "str_int 5 = py ''5''" by (simp add: py_def str_int_def str_nat.simps)
  have v: "validate_text (py ''  '') 5 = (False, py ''Text is empty'')"
    by (simp add: validate_text_def py_def str_strip_def isspace_def)
  show ?thesis
    using validate_text_cases [of "py ''hello!''" 5] validate_text_cases [of "py ''hello''" 5]
      validate_text_cases [of "py ''  ''" 5] b n1 n2 l1 l2 s6 s5 v
    by simp
qed


subsection \<open>\<open>estimate_audio_duration\<close>\<close>













section \<open>Traces\<close>

lemma new_events_append: "trace w' = trace w @ xs \<Longrightarrow> new_events w w' = xs"
  by (simp add: new_events_def)

lemma trace_emit: "trace (emit e w) = trace w @ [e]"
  by (simp add: emit_def)




lemma rest_stream_nonempty: "\<forall>c\<in>set (fst (rest_stream env w tx v stab sim)). c \<noteq> []"
  by (simp add: rest_stream_def Let_def split: sum.split prod.split ending.split)

lemma concat_filter_nonempty: "concat (filter (\<lambda>c. c \<noteq> []) cs) = concat cs"
  by (induction cs) auto

lemma rest_stream_ok:
  assumes "requests_post env (trace (emit (Posted (rest_request env tx v stab sim monolingual True)) w))
             (rest_request env tx v stab sim monolingual True) = Inr resp"
    and "status_code resp = 200"
  shows "fst (rest_stream env w tx v stab sim) = filter (\<lambda>c. c \<noteq> []) (fst (iter_content resp 4096))"
  using assms by (simp add: rest_stream_def Let_def split: prod.split ending.split)





lemma streaming_unfold:
  "synthesize_streaming env w tx v stab sim =
     (let s = structured_stream env w tx v stab sim in
      if snd (fst s) then
        (map (Pair FromStructured) (fst (fst s)) @
           map (Pair FromHttp) (fst (rest_stream env (snd s) tx v stab sim)),
         snd (rest_stream env (snd s) tx v stab sim))
      else (map (Pair FromStructured) (fst (fst s)), snd s))"
  by (simp add: synthesize_streaming_def Let_def split: prod.split)

lemma yielded_by_tags:
  "yielded_by FromHttp (map (Pair FromStructured) xs @ map (Pair FromHttp) ys, w) = ys"
  "yielded_by FromStructured (map (Pair FromStructured) xs @ map (Pair FromHttp) ys, w) = xs"
  "yielded (map (Pair FromStructured) xs @ map (Pair FromHttp) ys, w) = xs @ ys"
  by (simp_all add: yielded_by_def yielded_def filter_map o_def)



section \<open>Properties of the streaming variant\<close>










text \<open>
  Claim C10. Every chunk that \<open>synthesize_streaming\<close> yields from the HTTP path is
  non-empty; for an answer with status 200 these chunks are the delivered ones without
  the empty ones, and their concatenation is the concatenation of all delivered chunks.
\<close>

theorem http_chunks_nonempty:
  "(\<forall>c\<in>set (yielded_by FromHttp (synthesize_streaming env w tx v stab sim)). c \<noteq> []) \<and>
   (falls_through (structured_stream env w tx v stab sim) \<and>
    requests_post env
      (trace (emit (Posted (rest_request env tx v stab sim monolingual True))
               (snd (structured_stream env w tx v stab sim))))
      (rest_request env tx v stab sim monolingual True) = Inr resp \<and>
    status_code resp = 200 \<longrightarrow>
      yielded_by FromHttp (synthesize_streaming env w tx v stab sim) =
        filter (\<lambda>c. c \<noteq> []) (fst (iter_content resp 4096)) \<and>
      concat (yielded_by FromHttp (synthesize_streaming env w tx v stab sim)) =
        concat (fst (iter_content resp 4096)))"
proof -
  let ?s = "structured_stream env w tx v stab sim"
  let ?r = "synthesize_streaming env w tx v stab sim"
  have y: "yielded_by FromHttp ?r =
      (if falls_through ?s then fst (rest_stream env (snd ?s) tx v stab sim) else [])"
    by (simp add: streaming_unfold Let_def falls_through_def yielded_by_def filter_map o_def)
  have a: "\<forall>c\<in>set (yielded_by FromHttp ?r). c \<noteq> []"
    unfolding y using rest_stream_nonempty [of env "snd ?s" tx v stab sim] by simp
  have b: "yielded_by FromHttp ?r = filter (\<lambda>c. c \<noteq> []) (fst (iter_content resp 4096)) \<and>
      concat (yielded_by FromHttp ?r) = concat (fst (iter_content resp 4096))"
    if f: "falls_through ?s"
      and p: "requests_post env
      (trace (emit (Posted (rest_request env tx v stab sim monolingual True)) (snd ?s)))
      (rest_request env tx v stab sim monolingual True) = Inr resp"
      and st: "status_code resp = 200"
    using f rest_stream_ok [OF p st] by (simp add: y concat_filter_nonempty)
  from a b show ?thesis by blast
qed

theorem http_chunks_nonempty_witness:
  "falls_through (structured_stream sparse_env empty_world (py ''hi'') (py ''v1'') (1 / 2) (3 / 4)) \<and>
   yielded_by FromHttp (synthesize_streaming sparse_env empty_world (py ''hi'') (py ''v1'') (1 / 2) (3 / 4)) =
     [[8], [9]] \<and>
   concat (yielded_by FromHttp (synthesize_streaming sparse_env empty_world (py ''hi'') (py ''v1'') (1 / 2) (3 / 4))) =
     concat [[], [8], [], [], [9]] \<and>
   list_all (\<lambda>c. c \<noteq> [])
     (yielded_by FromHttp (synthesize_streaming sparse_env empty_world (py ''hi'') (py ''v1'') (1 / 2) (3 / 4)))"
proof -
  let ?resp = "\<lparr>status_code = 200, content = [8, 9], resp_text = [],
                 iter_content = (\<lambda>n. ([[], [8], [], [], [9]], Exhausted))\<rparr> :: http_response"
  have s: "structured_stream sparse_env empty_world (py ''hi'') (py ''v1'') (1 / 2) (3 / 4) =
      (([], True), empty_world)"
    by (simp add: structured_stream_def sparse_env_def example_env_def)
  have f: "falls_through (structured_stream sparse_env empty_world (py ''hi'') (py ''v1'') (1 / 2) (3 / 4))"
    by (simp add: s falls_through_def)
  have p: "requests_post sparse_env
           (trace (emit (Posted (rest_request sparse_env (py ''hi'') (py ''v1'') (1 / 2) (3 / 4) monolingual True))
                    (snd (structured_stream sparse_env empty_world (py ''hi'') (py ''v1'') (1 / 2) (3 / 4)))))
           (rest_request sparse_env (py ''hi'') (py ''v1'') (1 / 2) (3 / 4) monolingual True) = Inr ?resp"
    by (simp add: sparse_env_def example_env_def)
  have st: "status_code ?resp = 200" by simp
  show ?thesis
    using f p st
      http_chunks_nonempty [of sparse_env empty_world "py ''hi''" "py ''v1''" "1 / 2" "3 / 4" ?resp]
    by simp
qed



section \<open>Properties of the synthesis facade\<close>
















lemma announce_trace:
  "trace (announce w tx v) =
     trace w @ [Printed SynthesizingSpeech, Printed (TextLine tx), Printed (VoiceIdLine v)]"
  by (simp add: announce_def trace_emit)


lemma synthesize_unfold:
  "synthesize env w tx v stab sim out =
     (let a = acquire_audio env (announce w tx v) tx v stab sim in
      case fst a of
        None \<Rightarrow> (None, emit (Printed NoAudioReceived) (snd a))
      | Some b \<Rightarrow> save_audio env (snd a) b out)"
  by (cases "acquire_audio env (announce w tx v) tx v stab sim")
    (simp add: synthesize_def Let_def split: option.split)







text \<open>
  Claim C2 at the failing input. The structured call returns an iterable whose iteration
  raises; the handler of line 72 sets \<open>audio_bytes\<close> to \<open>None\<close> and the call ends with
  "no audio received" without posting the REST request, although that request would have
  returned audio. The raised error itself does not reach the caller.
\<close>

theorem synthesize_gives_up_after_broken_iteration:
  "fst (synthesize broken_iterator_env empty_world (py ''hello'') (py ''v1'') (1 / 2) (3 / 4) None) = None \<and>
   trace (snd (synthesize broken_iterator_env empty_world (py ''hello'') (py ''v1'') (1 / 2) (3 / 4) None)) =
     [Printed SynthesizingSpeech, Printed (TextLine (py ''hello'')), Printed (VoiceIdLine (py ''v1'')),
      CalledConvert (py ''v1'') (py ''hello'') monolingual (1 / 2) (3 / 4),
      Printed NoAudioReceived] \<and>
   fst (rest_generate_bytes broken_iterator_env empty_world (py ''hello'') (py ''v1'') (1 / 2) (3 / 4)
          monolingual) = Some [1, 2, 3]"
  by (simp add: synthesize_def announce_def acquire_audio_def rest_generate_bytes_def
      extract_bytes_def Let_def emit_def broken_iterator_env_def example_env_def
      example_response_def empty_world_def)

lemma synthesize_failed_extraction:
  assumes "has_text_to_speech env" "has_convert env" "voice_settings_error env stab sim = None"
    and "sdk_convert env (trace (announce w tx v) @ [CalledConvert v tx monolingual stab sim])
           v tx monolingual stab sim = Inr resp"
    and "extract_bytes resp = None"
  shows "fst (synthesize env w tx v stab sim out) = None \<and>
         filter is_posted (new_events w (snd (synthesize env w tx v stab sim out))) = []"
  using assms
  by (simp add: synthesize_unfold acquire_audio_def Let_def trace_emit new_events_def
      announce_trace is_posted_def)

lemma acquire_audio_None_iff:
  "fst (acquire_audio env w tx v stab sim) = None \<longleftrightarrow>
     (if has_text_to_speech env \<and> has_convert env \<and> voice_settings_error env stab sim = None then
        (case sdk_convert env (trace w @ [CalledConvert v tx monolingual stab sim])
                v tx monolingual stab sim of
           Inl e \<Rightarrow> fst (rest_generate_bytes env (emit (CalledConvert v tx monolingual stab sim) w)
                          tx v stab sim monolingual) = None
         | Inr resp \<Rightarrow> extract_bytes resp = None)
      else fst (rest_generate_bytes env w tx v stab sim monolingual) = None)"
  by (auto simp: acquire_audio_def Let_def trace_emit split: option.split sum.split)





section \<open>Properties of the batch and preset entry points\<close>

lemma synthesize_calls_append:
  "synthesize_calls (xs @ ys) = synthesize_calls xs @ synthesize_calls ys"
  by (simp add: synthesize_calls_def)

lemma rest_generate_calls:
  "synthesize_calls (trace (snd (rest_generate_bytes env w tx v stab sim model))) =
     synthesize_calls (trace w)"
  by (simp add: rest_generate_bytes_def Let_def trace_emit synthesize_calls_def split: sum.split)

lemma acquire_calls:
  "synthesize_calls (trace (snd (acquire_audio env w tx v stab sim))) = synthesize_calls (trace w)"
  by (simp add: acquire_audio_def Let_def rest_generate_calls trace_emit synthesize_calls_append
      split: option.split sum.split) (simp add: synthesize_calls_def)

lemma save_calls:
  "synthesize_calls (trace (snd (save_audio env w b out))) = synthesize_calls (trace w)"
  by (simp add: save_audio_def Let_def trace_emit synthesize_calls_def split: option.split)

lemma synthesize_calls_one:
  "synthesize_calls (trace (snd (synthesize env w tx v stab sim out))) =
     synthesize_calls (trace w) @ [tx]"
proof -
  have "synthesize_calls (trace (snd (synthesize env w tx v stab sim out))) =
      synthesize_calls (trace (announce w tx v))"
    by (simp add: synthesize_unfold Let_def save_calls acquire_calls trace_emit
        synthesize_calls_append split: option.split) (simp add: synthesize_calls_def)
  then show ?thesis
    by (simp add: announce_trace synthesize_calls_append) (simp add: synthesize_calls_def)
qed

lemma save_result_path:
  "fst (save_audio env w b (Some p)) = None \<or> fst (save_audio env w b (Some p)) = Some p"
  by (simp add: save_audio_def Let_def split: option.split)

lemma synthesize_result_path:
  "fst (synthesize env w tx v stab sim (Some p)) = None \<or>
   fst (synthesize env w tx v stab sim (Some p)) = Some p"
  using save_result_path
  by (simp add: synthesize_unfold Let_def split: option.split)

lemma batch_path_nonempty: "batch_path i ts \<noteq> []"
  by (simp add: batch_path_def output_dir_def py_def)

lemma truthy_batch_result:
  "truthy (fst (synthesize env w tx v stab sim (Some (batch_path i ts)))) \<longleftrightarrow>
   fst (synthesize env w tx v stab sim (Some (batch_path i ts))) \<noteq> None"
  using synthesize_result_path [of env w tx v stab sim "batch_path i ts"] batch_path_nonempty [of i ts]
  by (auto simp: truthy_def)

lemma successes_Cons:
  "successes (r # rs) = (if r \<noteq> None then the r # successes rs else successes rs)"
  by (simp add: successes_def)

lemma batch_loop_successes:
  "fst (batch_loop env n i texts v stab sim acc w) =
     acc @ successes (synthesize_each env n i texts v stab sim w)"
proof (induction texts arbitrary: i acc w)
  case Nil
  then show ?case by (simp add: successes_def)
next
  case (Cons tx rest)
  let ?w2 = "emit ReadClock (emit (Printed (BatchProgress (i + 1) n)) w)"
  let ?r = "synthesize env ?w2 tx v stab sim (Some (batch_path i (strftime_now env (trace ?w2))))"
  have "fst (batch_loop env n i (tx # rest) v stab sim acc w) =
      fst (batch_loop env n (i + 1) rest v stab sim
             (if truthy (fst ?r) then acc @ [the (fst ?r)] else acc) (snd ?r))"
    by (cases ?r) (simp add: Let_def)
  also have "\<dots> = (if truthy (fst ?r) then acc @ [the (fst ?r)] else acc) @
      successes (synthesize_each env n (i + 1) rest v stab sim (snd ?r))"
    by (rule Cons.IH)
  also have "\<dots> = acc @ successes (synthesize_each env n i (tx # rest) v stab sim w)"
    by (simp add: Let_def successes_Cons truthy_batch_result)
  finally show ?case .
qed

lemma batch_loop_calls:
  "synthesize_calls (trace (snd (batch_loop env n i texts v stab sim acc w))) =
     synthesize_calls (trace w) @ texts"
proof (induction texts arbitrary: i acc w)
  case Nil
  then show ?case by simp
next
  case (Cons tx rest)
  let ?w2 = "emit ReadClock (emit (Printed (BatchProgress (i + 1) n)) w)"
  let ?r = "synthesize env ?w2 tx v stab sim (Some (batch_path i (strftime_now env (trace ?w2))))"
  have w2: "synthesize_calls (trace ?w2) = synthesize_calls (trace w)"
    by (simp add: trace_emit synthesize_calls_def)
  have "snd (batch_loop env n i (tx # rest) v stab sim acc w) =
      snd (batch_loop env n (i + 1) rest v stab sim
             (if truthy (fst ?r) then acc @ [the (fst ?r)] else acc) (snd ?r))"
    by (cases ?r) (simp add: Let_def)
  then have "synthesize_calls (trace (snd (batch_loop env n i (tx # rest) v stab sim acc w))) =
      synthesize_calls (trace (snd ?r)) @ rest"
    by (simp only: Cons.IH)
  also have "\<dots> = (synthesize_calls (trace ?w2) @ [tx]) @ rest"
    by (simp only: synthesize_calls_one)
  also have "\<dots> = synthesize_calls (trace w) @ tx # rest"
    by (simp only: w2) simp
  finally show ?case .
qed

lemma length_synthesize_each:
  "length (synthesize_each env n i texts v stab sim w) = length texts"
  by (induction texts arbitrary: i w) (simp_all add: Let_def)

text \<open>
  Claim C6. \<open>batch_synthesize\<close> returns the paths of the calls of \<open>synthesize\<close> that
  succeeded, in input order; its length is the number of successes; there is one result
  per text; and the calls of \<open>synthesize\<close> recorded in the trace are the texts, in list
  order, once each.
\<close>

theorem batch_synthesize_results:
  "fst (batch_synthesize env w texts v stab sim) =
     successes (synthesize_each env (length texts) 0 texts v stab sim w) \<and>
   length (fst (batch_synthesize env w texts v stab sim)) =
     length (filter (\<lambda>r. r \<noteq> None) (synthesize_each env (length texts) 0 texts v stab sim w)) \<and>
   length (synthesize_each env (length texts) 0 texts v stab sim w) = length texts \<and>
   synthesize_calls (trace (snd (batch_synthesize env w texts v stab sim))) =
     synthesize_calls (trace w) @ texts"
  by (simp add: batch_synthesize_def batch_loop_successes batch_loop_calls length_synthesize_each)
    (simp add: successes_def)

lemma picky_each:
  "synthesize_each picky_env 3 0 [py ''one'', py ''bad'', py ''three''] (py ''v1'') (1 / 2) (3 / 4) empty_world =
     [Some (py ''assets/outputs/batch_1_20240101_120000.mp3''), None,
      Some (py ''assets/outputs/batch_3_20240101_120000.mp3'')]"
  by (simp add: synthesize_def announce_def acquire_audio_def rest_generate_bytes_def save_audio_def
      batch_path_def rest_request_def Let_def emit_def picky_env_def example_env_def
      example_response_def empty_world_def output_dir_def str_nat.simps py_def)

theorem batch_synthesize_results_witness:
  "fst (batch_synthesize picky_env empty_world [py ''one'', py ''bad'', py ''three''] (py ''v1'') (1 / 2) (3 / 4)) =
     [py ''assets/outputs/batch_1_20240101_120000.mp3'', py ''assets/outputs/batch_3_20240101_120000.mp3''] \<and>
   length (fst (batch_synthesize picky_env empty_world [py ''one'', py ''bad'', py ''three''] (py ''v1'')
                  (1 / 2) (3 / 4))) = 2 \<and>
   synthesize_calls (trace (snd (batch_synthesize picky_env empty_world [py ''one'', py ''bad'', py ''three'']
                                   (py ''v1'') (1 / 2) (3 / 4)))) =
     [py ''one'', py ''bad'', py ''three'']"
proof -
  have len: "length [py ''one'', py ''bad'', py ''three''] = 3" by simp
  note th = batch_synthesize_results [of picky_env empty_world "[py ''one'', py ''bad'', py ''three'']"
      "py ''v1''" "1 / 2" "3 / 4", unfolded len picky_each]
  have s: "successes [Some (py ''assets/outputs/batch_1_20240101_120000.mp3''), None,
      Some (py ''assets/outputs/batch_3_20240101_120000.mp3'')] =
     [py ''assets/outputs/batch_1_20240101_120000.mp3'', py ''assets/outputs/batch_3_20240101_120000.mp3'']"
    by (simp add: successes_def)
  have e: "synthesize_calls (trace empty_world) = []"
    by (simp add: synthesize_calls_def empty_world_def)
  from th show ?thesis
    unfolding s e by simp
qed

text \<open>
  Claim C7. The table has exactly the keys "stable", "balanced" and "expressive", each
  once; a name that is not a key gets the settings of "balanced", a key gets its own
  entry; the lookup never raises and has no world to change; and
  \<open>synthesize_with_preset\<close> is \<open>synthesize\<close> with the stability and similarity of the
  settings found, and no output path.
\<close>

theorem preset_lookup:
  "set (map fst presets) = {py ''stable'', py ''balanced'', py ''expressive''} \<and>
   distinct (map fst presets) \<and>
   (preset \<notin> set (map fst presets) \<longrightarrow>
      get_voice_settings_preset preset = get_voice_settings_preset (py ''balanced'')) \<and>
   (\<forall>s. (preset, s) \<in> set presets \<longrightarrow> get_voice_settings_preset preset = Inr s) \<and>
   (\<exists>s. get_voice_settings_preset preset = Inr s \<and>
        synthesize_with_preset env w tx v preset =
          Inr (synthesize env w tx v (stability s) (similarity s) None))"
proof -
  have a: "set (map fst presets) = {py ''stable'', py ''balanced'', py ''expressive''}"
    by (simp add: presets_def)
  have b: "distinct (map fst presets)"
    by (simp add: presets_def py_def)
  have c: "get_voice_settings_preset preset = get_voice_settings_preset (py ''balanced'')"
    if "preset \<notin> set (map fst presets)"
    using that
    by (simp add: get_voice_settings_preset_def dict_index_def dict_get_def presets_def py_def)
  have d: "get_voice_settings_preset preset = Inr s" if "(preset, s) \<in> set presets" for s
    using that
    by (auto simp: get_voice_settings_preset_def dict_index_def dict_get_def presets_def py_def)
  obtain s where s: "get_voice_settings_preset preset = Inr s"
    by (simp add: get_voice_settings_preset_def dict_index_def presets_def py_def)
  then have e: "synthesize_with_preset env w tx v preset =
          Inr (synthesize env w tx v (stability s) (similarity s) None)"
    by (simp add: synthesize_with_preset_def)
  from a b c d s e show ?thesis by blast
qed

theorem preset_lookup_witness:
  "py ''loud'' \<notin> set (map fst presets) \<and>
   get_voice_settings_preset (py ''loud'') = Inr \<lparr>stability = 1 / 2, similarity = 3 / 4\<rparr> \<and>
   (py ''expressive'', \<lparr>stability = 3 / 10, similarity = 4 / 5\<rparr>) \<in> set presets \<and>
   get_voice_settings_preset (py ''expressive'') = Inr \<lparr>stability = 3 / 10, similarity = 4 / 5\<rparr> \<and>
   synthesize_with_preset example_env empty_world (py ''hello'') (py ''v1'') (py ''expressive'') =
     Inr (synthesize example_env empty_world (py ''hello'') (py ''v1'') (3 / 10) (4 / 5) None)"
proof -
  have n: "py ''loud'' \<notin> set (map fst presets)"
    by (simp add: presets_def py_def)
  have b: "get_voice_settings_preset (py ''balanced'') = Inr \<lparr>stability = 1 / 2, similarity = 3 / 4\<rparr>"
    by (simp add: get_voice_settings_preset_def dict_index_def dict_get_def presets_def py_def)
  have m: "(py ''expressive'', \<lparr>stability = 3 / 10, similarity = 4 / 5\<rparr>) \<in> set presets"
    by (simp add: presets_def)
  show ?thesis
    using n b m preset_lookup [of "py ''loud''" example_env empty_world "py ''hello''" "py ''v1''"]
      preset_lookup [of "py ''expressive''" example_env empty_world "py ''hello''" "py ''v1''"]
    by auto
qed


end
